theory Spec2Isabelle
  imports Main
begin

section \<open>The session timer of the useTimer hook\<close>

text \<open>
  The hook keeps one \<open>TimerSession\<close> value in React state and replaces it through
  updater functions \<open>prev => next\<close>.  Each updater is a pure function of the previous
  session and of the settings captured by the hook, so the model is explicit state
  passing: every command is a function from the settings and the previous session to the
  next session.  JavaScript numbers hold the durations and counters; all of them are
  integers here and are modelled as \<open>int\<close>, so that \<open>timeRemaining - 1\<close> may go below
  zero exactly as in the source.
\<close>

subsection \<open>Data model\<close>

text \<open>The string unions \<open>TimerPhase\<close> and \<open>TimerState\<close>; both contain the literal
  \<open>'completed'\<close>, hence the prefixes.\<close>

datatype TimerPhase = phase_prep | phase_focus | phase_break | phase_completed

datatype TimerState = state_idle | state_running | state_paused | state_completed

record TimerSettings =
  focusDuration :: int
  breakDuration :: int
  loops :: int
  hasPrep :: bool
  countUp :: bool

record TimerSession =
  phase :: TimerPhase
  state :: TimerState
  currentLoop :: int
  totalLoops :: int
  timeElapsed :: int
  timeRemaining :: int
  totalSessionTime :: int
  coinsEarned :: int
  completedFocusTime :: int

definition PREP_DURATION :: int where
  "PREP_DURATION = 5 * 60"

subsection \<open>Construction\<close>

text \<open>The initial value handed to \<open>useState\<close>; \<open>resetTimer\<close> builds the same object.\<close>

definition initialSession :: "TimerSettings \<Rightarrow> TimerSession" where
  "initialSession settings =
     \<lparr> phase = (if hasPrep settings then phase_prep else phase_focus),
       state = state_idle,
       currentLoop = 1,
       totalLoops = loops settings,
       timeElapsed = 0,
       timeRemaining = (if hasPrep settings then PREP_DURATION else focusDuration settings),
       totalSessionTime = (if hasPrep settings then PREP_DURATION else focusDuration settings),
       coinsEarned = 0,
       completedFocusTime = 0 \<rparr>"

text \<open>
  Calling the hook.  The body of \<open>useTimer\<close> contains no \<open>throw\<close> and no check of its
  argument; the bounds of \<open>TimerSettings\<close> appear only in the comments of the interface.
  The result type makes a rejected configuration expressible (\<open>Inl\<close>), and the definition
  shows that the source never takes that branch.
\<close>

datatype TimerError = ConfigurationError

definition useTimer :: "TimerSettings \<Rightarrow> TimerError + TimerSession" where
  "useTimer settings = Inr (initialSession settings)"

subsection \<open>Derived values\<close>

definition getTotalDuration :: "TimerSettings \<Rightarrow> int" where
  "getTotalDuration settings =
     (let prepTime = (if hasPrep settings then PREP_DURATION else 0);
          cycleTime = (focusDuration settings + breakDuration settings) * loops settings
      in prepTime + cycleTime)"

fun getCurrentPhaseDuration :: "TimerSettings \<Rightarrow> TimerPhase \<Rightarrow> int" where
  "getCurrentPhaseDuration settings phase_prep = PREP_DURATION"
| "getCurrentPhaseDuration settings phase_focus = focusDuration settings"
| "getCurrentPhaseDuration settings phase_break = breakDuration settings"
| "getCurrentPhaseDuration settings phase_completed = 0"

definition getDisplayTime :: "TimerSettings \<Rightarrow> TimerSession \<Rightarrow> int" where
  "getDisplayTime settings session =
     (if countUp settings then timeElapsed session else timeRemaining session)"

subsection \<open>Phase transition\<close>

text \<open>
  The updater inside \<open>moveToNextPhase(isSkipped)\<close>.  The three mutable locals
  \<open>nextLoop\<close>, \<open>coinsToAdd\<close> and \<open>completedFocusTime\<close> are computed first, then the next
  phase, then the object spread.  \<open>Math.floor(x / 30)\<close> on an integer is \<open>x div 30\<close>.
\<close>

definition coinsToAdd :: "bool \<Rightarrow> TimerSession \<Rightarrow> int" where
  "coinsToAdd isSkipped prev =
     (if phase prev = phase_focus \<and> \<not> isSkipped then timeElapsed prev div 30
      else if phase prev = phase_focus \<and> isSkipped then 0
      else 0)"

definition nextCompletedFocusTime :: "bool \<Rightarrow> TimerSession \<Rightarrow> int" where
  "nextCompletedFocusTime isSkipped prev =
     (if phase prev = phase_focus \<and> \<not> isSkipped then completedFocusTime prev + timeElapsed prev
      else if phase prev = phase_focus \<and> isSkipped then completedFocusTime prev + timeElapsed prev
      else completedFocusTime prev)"

text \<open>The pair (next phase, next loop) of the transition logic.\<close>

definition nextPhaseLoop :: "TimerSettings \<Rightarrow> TimerSession \<Rightarrow> TimerPhase \<times> int" where
  "nextPhaseLoop settings prev =
     (if phase prev = phase_prep then (phase_focus, currentLoop prev)
      else if phase prev = phase_focus then
        (if breakDuration settings > 0 then (phase_break, currentLoop prev)
         else (let nextLoop = currentLoop prev + 1
               in if nextLoop \<le> loops settings then (phase_focus, nextLoop)
                  else (phase_completed, nextLoop)))
      else if phase prev = phase_break then
        (let nextLoop = currentLoop prev + 1
         in if nextLoop \<le> loops settings then (phase_focus, nextLoop)
            else (phase_completed, nextLoop))
      else (phase_completed, currentLoop prev))"

definition moveToNextPhase :: "TimerSettings \<Rightarrow> bool \<Rightarrow> TimerSession \<Rightarrow> TimerSession" where
  "moveToNextPhase settings isSkipped prev =
     (case nextPhaseLoop settings prev of (nextPhase, nextLoop) \<Rightarrow>
        (let phaseDuration = getCurrentPhaseDuration settings nextPhase
         in prev \<lparr> phase := nextPhase,
                   state := (if nextPhase = phase_completed then state_completed else state prev),
                   currentLoop := nextLoop,
                   timeElapsed := 0,
                   timeRemaining := phaseDuration,
                   totalSessionTime := phaseDuration,
                   coinsEarned := coinsEarned prev + coinsToAdd isSkipped prev,
                   completedFocusTime := nextCompletedFocusTime isSkipped prev \<rparr>))"

subsection \<open>Commands\<close>

text \<open>
  The updater inside \<open>tick\<close> returns the session it stores and may schedule
  \<open>setTimeout(moveToNextPhase, 0)\<close>; the flag records that.  When the phase expires the
  updater returns \<open>prev\<close> itself, not the session with the last second added.
\<close>

definition tickUpdater :: "TimerSession \<Rightarrow> TimerSession \<times> bool" where
  "tickUpdater prev =
     (if state prev \<noteq> state_running \<or> phase prev = phase_completed then (prev, False)
      else (let newTimeElapsed = timeElapsed prev + 1;
                newTimeRemaining = timeRemaining prev - 1
            in if newTimeRemaining \<le> 0 then (prev, True)
               else (prev \<lparr> timeElapsed := newTimeElapsed,
                            timeRemaining := newTimeRemaining \<rparr>, False)))"

text \<open>
  One tick as an atomic step: the updater, followed at once by the scheduled call
  \<open>moveToNextPhase()\<close> (its parameter takes the default \<open>isSkipped = false\<close>).
\<close>

definition tick :: "TimerSettings \<Rightarrow> TimerSession \<Rightarrow> TimerSession" where
  "tick settings prev =
     (case tickUpdater prev of (s, scheduled) \<Rightarrow>
        if scheduled then moveToNextPhase settings False s else s)"

definition startTimer :: "TimerSession \<Rightarrow> TimerSession" where
  "startTimer prev = prev \<lparr> state := state_running \<rparr>"

definition pauseTimer :: "TimerSession \<Rightarrow> TimerSession" where
  "pauseTimer prev = prev \<lparr> state := state_paused \<rparr>"

definition resetTimer :: "TimerSettings \<Rightarrow> TimerSession \<Rightarrow> TimerSession" where
  "resetTimer settings prev = initialSession settings"

definition skipPhase :: "TimerSettings \<Rightarrow> TimerSession \<Rightarrow> TimerSession" where
  "skipPhase settings prev = moveToNextPhase settings True prev"

text \<open>The command surface of the hook, and a run of commands on a session.\<close>

datatype Command = Start | Pause | Reset | Skip | Tick

fun applyCommand :: "TimerSettings \<Rightarrow> Command \<Rightarrow> TimerSession \<Rightarrow> TimerSession" where
  "applyCommand settings Start s = startTimer s"
| "applyCommand settings Pause s = pauseTimer s"
| "applyCommand settings Reset s = resetTimer settings s"
| "applyCommand settings Skip s = skipPhase settings s"
| "applyCommand settings Tick s = tick settings s"

definition run :: "TimerSettings \<Rightarrow> Command list \<Rightarrow> TimerSession \<Rightarrow> TimerSession" where
  "run settings cmds s = foldl (\<lambda>acc c. applyCommand settings c acc) s cmds"

text \<open>The sessions reachable from a fresh hook: the results of all command lists.\<close>

definition fromFresh :: "TimerSettings \<Rightarrow> Command list \<Rightarrow> TimerSession" where
  "fromFresh settings cmds = run settings cmds (initialSession settings)"

subsection \<open>Time formatting\<close>

text \<open>
  \<open>Number.prototype.toString()\<close> on an integer: the decimal digits, most significant
  first, with a minus sign for a negative number.
\<close>

fun natToString :: "nat \<Rightarrow> string" where
  "natToString n =
     (if n < 10 then [''0123456789'' ! n]
      else natToString (n div 10) @ [''0123456789'' ! (n mod 10)])"

declare natToString.simps [simp del]

definition numberToString :: "int \<Rightarrow> string" where
  "numberToString i =
     (if i < 0 then CHR ''-'' # natToString (nat (- i)) else natToString (nat i))"

text \<open>
  The remainder operator \<open>%\<close> of JavaScript truncates towards zero: the result has the
  sign of the dividend.  (The divisor in the source is the literal 60; a zero divisor,
  which gives \<open>NaN\<close> in JavaScript, does not occur.)
\<close>

definition jsRemainder :: "int \<Rightarrow> int \<Rightarrow> int" where
  "jsRemainder a b = (if a < 0 then - ((- a) mod \<bar>b\<bar>) else a mod \<bar>b\<bar>)"

text \<open>\<open>String.prototype.padStart(targetLength, padString)\<close>: the pad string is repeated
  and cut to the missing length; a string that is long enough is returned as it is.\<close>

definition padStart :: "string \<Rightarrow> nat \<Rightarrow> string \<Rightarrow> string" where
  "padStart str targetLength padString =
     (if targetLength \<le> length str \<or> padString = [] then str
      else (let fillLen = targetLength - length str
            in take fillLen (concat (replicate fillLen padString)) @ str))"

definition formatTime :: "int \<Rightarrow> string" where
  "formatTime seconds =
     (let minutes = seconds div 60;
          remainingSeconds = jsRemainder seconds 60
      in padStart (numberToString minutes) 2 ''0'' @ '':'' @
         padStart (numberToString remainingSeconds) 2 ''0'')"

subsection \<open>The specification's side\<close>

text \<open>
  Two definitions that follow the words of the specification, not the source, so that the
  source can be compared with them.  \<open>spec_pad2\<close> is "zero-pad to at least two digits";
  \<open>spec_nextPhase\<close> is the transition table, with \<open>None\<close> where the table has no row.
\<close>

definition spec_pad2 :: "int \<Rightarrow> string" where
  "spec_pad2 n = (if n < 10 then CHR ''0'' # numberToString n else numberToString n)"

fun spec_nextPhase :: "TimerSettings \<Rightarrow> TimerPhase \<Rightarrow> int \<Rightarrow> TimerPhase option" where
  "spec_nextPhase settings phase_prep loop = Some phase_focus"
| "spec_nextPhase settings phase_focus loop =
     (if breakDuration settings > 0 then Some phase_break
      else if breakDuration settings = 0 \<and> loop < loops settings then Some phase_focus
      else if breakDuration settings = 0 \<and> loop = loops settings then Some phase_completed
      else None)"
| "spec_nextPhase settings phase_break loop =
     (if loop < loops settings then Some phase_focus
      else if loop = loops settings then Some phase_completed
      else None)"
| "spec_nextPhase settings phase_completed loop = None"

subsection \<open>The configurations of the test suite and of the scenarios\<close>

definition defaultSettings :: TimerSettings where
  "defaultSettings =
     \<lparr> focusDuration = 60, breakDuration = 30, loops = 2, hasPrep = False, countUp = False \<rparr>"

definition singleLoopSettings :: TimerSettings where
  "singleLoopSettings = defaultSettings \<lparr> loops := 1 \<rparr>"

definition noBreakSettings :: TimerSettings where
  "noBreakSettings = defaultSettings \<lparr> breakDuration := 0 \<rparr>"

definition shortSettings :: TimerSettings where
  "shortSettings =
     \<lparr> focusDuration = 1, breakDuration = 1, loops = 1, hasPrep = False, countUp = False \<rparr>"

text \<open>Scenario E: focus 150, no break, one loop, no preparation.\<close>

definition scenarioESettings :: TimerSettings where
  "scenarioESettings =
     \<lparr> focusDuration = 150, breakDuration = 0, loops = 1, hasPrep = False, countUp = False \<rparr>"

section \<open>Basic facts\<close>

lemmas command_defs = startTimer_def pauseTimer_def resetTimer_def skipPhase_def

lemma run_snoc: "run settings (cmds @ [c]) s = applyCommand settings c (run settings cmds s)"
  by (simp add: run_def)

lemma fromFresh_Nil: "fromFresh settings [] = initialSession settings"
  by (simp add: fromFresh_def run_def)

lemma fromFresh_snoc:
  "fromFresh settings (cmds @ [c]) = applyCommand settings c (fromFresh settings cmds)"
  by (simp add: fromFresh_def run_snoc)

text \<open>What \<open>moveToNextPhase\<close> stores in each field.\<close>

lemma moveToNextPhase_phase:
  "phase (moveToNextPhase settings b s) = fst (nextPhaseLoop settings s)"
  by (simp add: moveToNextPhase_def Let_def split: prod.split)

lemma moveToNextPhase_state:
  "state (moveToNextPhase settings b s) =
     (if fst (nextPhaseLoop settings s) = phase_completed then state_completed else state s)"
  by (simp add: moveToNextPhase_def Let_def split: prod.split)

lemma moveToNextPhase_currentLoop:
  "currentLoop (moveToNextPhase settings b s) = snd (nextPhaseLoop settings s)"
  by (simp add: moveToNextPhase_def Let_def split: prod.split)

lemma moveToNextPhase_timeElapsed: "timeElapsed (moveToNextPhase settings b s) = 0"
  by (simp add: moveToNextPhase_def Let_def split: prod.split)

lemma moveToNextPhase_timeRemaining:
  "timeRemaining (moveToNextPhase settings b s) =
     getCurrentPhaseDuration settings (fst (nextPhaseLoop settings s))"
  by (simp add: moveToNextPhase_def Let_def split: prod.split)

lemma moveToNextPhase_coinsEarned:
  "coinsEarned (moveToNextPhase settings b s) = coinsEarned s + coinsToAdd b s"
  by (simp add: moveToNextPhase_def Let_def split: prod.split)

lemma moveToNextPhase_completedFocusTime:
  "completedFocusTime (moveToNextPhase settings b s) = nextCompletedFocusTime b s"
  by (simp add: moveToNextPhase_def Let_def split: prod.split)

lemmas moveToNextPhase_fields =
  moveToNextPhase_phase moveToNextPhase_state moveToNextPhase_currentLoop
  moveToNextPhase_timeElapsed moveToNextPhase_timeRemaining moveToNextPhase_coinsEarned
  moveToNextPhase_completedFocusTime

text \<open>The three outcomes of one tick.\<close>

lemma tick_cases:
  "tick settings s =
     (if state s \<noteq> state_running \<or> phase s = phase_completed then s
      else if timeRemaining s - 1 \<le> 0 then moveToNextPhase settings False s
      else s \<lparr> timeElapsed := timeElapsed s + 1, timeRemaining := timeRemaining s - 1 \<rparr>)"
  by (simp add: tick_def tickUpdater_def Let_def)

lemma nextPhaseLoop_of_completed:
  "phase s = phase_completed \<Longrightarrow> fst (nextPhaseLoop settings s) = phase_completed"
  by (simp add: nextPhaseLoop_def)

section \<open>Invariants of the sessions reachable from a fresh hook\<close>

text \<open>Elapsed time is never negative.\<close>

lemma timeElapsed_step:
  "0 \<le> timeElapsed s \<Longrightarrow> 0 \<le> timeElapsed (applyCommand settings c s)"
  by (cases c)
     (simp_all add: command_defs initialSession_def tick_cases moveToNextPhase_timeElapsed)

lemma timeElapsed_nonneg: "0 \<le> timeElapsed (fromFresh settings cmds)"
proof (induction cmds rule: rev_induct)
  case Nil
  show ?case by (simp add: fromFresh_Nil initialSession_def)
next
  case (snoc c cmds)
  then show ?case by (simp only: fromFresh_snoc timeElapsed_step)
qed

text \<open>Elapsed and remaining time add up to the duration of the phase.\<close>

lemma phase_time_step:
  assumes "timeElapsed s + timeRemaining s = getCurrentPhaseDuration settings (phase s)"
  shows "timeElapsed (applyCommand settings c s) + timeRemaining (applyCommand settings c s)
           = getCurrentPhaseDuration settings (phase (applyCommand settings c s))"
  using assms
  by (cases c)
     (simp_all add: command_defs initialSession_def tick_cases moveToNextPhase_fields)

text \<open>A completed run state goes with a completed phase, and a completed phase is never
  idle.\<close>

lemma completed_step:
  assumes "state s = state_completed \<longrightarrow> phase s = phase_completed"
    and "phase s = phase_completed \<longrightarrow> state s \<noteq> state_idle"
  shows "(state (applyCommand settings c s) = state_completed
            \<longrightarrow> phase (applyCommand settings c s) = phase_completed)
         \<and> (phase (applyCommand settings c s) = phase_completed
            \<longrightarrow> state (applyCommand settings c s) \<noteq> state_idle)"
  using assms
  by (cases c)
     (auto simp: command_defs initialSession_def tick_cases moveToNextPhase_fields
        nextPhaseLoop_of_completed)

lemma completed_inv:
  "(state (fromFresh settings cmds) = state_completed
      \<longrightarrow> phase (fromFresh settings cmds) = phase_completed)
   \<and> (phase (fromFresh settings cmds) = phase_completed
      \<longrightarrow> state (fromFresh settings cmds) \<noteq> state_idle)"
proof (induction cmds rule: rev_induct)
  case Nil
  show ?case by (simp add: fromFresh_Nil initialSession_def)
next
  case (snoc c cmds)
  then show ?case
    unfolding fromFresh_snoc by (intro completed_step) blast+
qed

text \<open>Coins never go down except through a reset, and are never negative.\<close>

lemma coinsToAdd_nonneg: "0 \<le> timeElapsed s \<Longrightarrow> 0 \<le> coinsToAdd b s"
  by (simp add: coinsToAdd_def pos_imp_zdiv_nonneg_iff)

lemma coinsEarned_step:
  assumes "0 \<le> timeElapsed s" and "c \<noteq> Reset"
  shows "coinsEarned s \<le> coinsEarned (applyCommand settings c s)"
  using assms coinsToAdd_nonneg [of s]
  by (cases c) (simp_all add: command_defs tick_cases moveToNextPhase_coinsEarned)

lemma coinsEarned_nonneg: "0 \<le> coinsEarned (fromFresh settings cmds)"
proof (induction cmds rule: rev_induct)
  case Nil
  show ?case by (simp add: fromFresh_Nil initialSession_def)
next
  case (snoc c cmds)
  show ?case
  proof (cases "c = Reset")
    case True
    then show ?thesis by (simp add: fromFresh_snoc resetTimer_def initialSession_def)
  next
    case False
    have "coinsEarned (fromFresh settings cmds)
            \<le> coinsEarned (applyCommand settings c (fromFresh settings cmds))"
      using timeElapsed_nonneg False by (rule coinsEarned_step)
    with snoc.IH show ?thesis by (simp add: fromFresh_snoc)
  qed
qed

section \<open>Facts about time formatting\<close>

lemma natToString_nonempty: "1 \<le> length (natToString n)"
  by (subst natToString.simps) simp

lemma natToString_one_digit: "n < 10 \<Longrightarrow> length (natToString n) = 1"
  by (subst natToString.simps) simp

lemma natToString_more_digits: "10 \<le> n \<Longrightarrow> 2 \<le> length (natToString n)"
  using natToString_nonempty [of "n div 10"]
  by (subst natToString.simps) simp

lemma padStart_short: "length str = 1 \<Longrightarrow> padStart str 2 ''0'' = CHR ''0'' # str"
  by (simp add: padStart_def)

lemma padStart_long: "2 \<le> length str \<Longrightarrow> padStart str 2 padString = str"
  by (simp add: padStart_def)

lemma padStart_numberToString:
  assumes "0 \<le> n"
  shows "padStart (numberToString n) 2 ''0'' = spec_pad2 n"
proof (cases "n < 10")
  case True
  with assms have "length (numberToString n) = 1"
    by (simp add: numberToString_def natToString_one_digit)
  with True show ?thesis by (simp add: padStart_short spec_pad2_def)
next
  case False
  with assms have "2 \<le> length (numberToString n)"
    by (simp add: numberToString_def natToString_more_digits)
  with False show ?thesis by (simp add: padStart_long spec_pad2_def)
qed

lemma jsRemainder_nonneg: "0 \<le> a \<Longrightarrow> jsRemainder a 60 = a mod 60"
  by (simp add: jsRemainder_def)

section \<open>The claims\<close>

subsection \<open>Scenario E\<close>

text \<open>
  C1.  The specification expects 5 coins and 150 seconds of completed focus time after
  \<open>start()\<close> and 150 ticks with focus 150, no break, one loop and no preparation.  In the
  source the 150th tick finds \<open>timeRemaining - 1 \<le> 0\<close>, stores \<open>prev\<close> unchanged and
  schedules the transition, which therefore reads \<open>timeElapsed = 149\<close>: the session ends
  completed with \<open>floor(149/30) = 4\<close> coins and 149 seconds of completed focus time.
\<close>

theorem C1_scenarioE_evaluated:
  "fromFresh scenarioESettings (Start # replicate 149 Tick) =
     \<lparr> phase = phase_focus, state = state_running, currentLoop = 1, totalLoops = 1,
       timeElapsed = 149, timeRemaining = 1, totalSessionTime = 150,
       coinsEarned = 0, completedFocusTime = 0 \<rparr>
   \<and> fromFresh scenarioESettings (Start # replicate 150 Tick) =
     \<lparr> phase = phase_completed, state = state_completed, currentLoop = 2, totalLoops = 1,
       timeElapsed = 0, timeRemaining = 0, totalSessionTime = 0,
       coinsEarned = 4, completedFocusTime = 149 \<rparr>"
  by code_simp

subsection \<open>Construction\<close>

text \<open>
  C2, counterexample.  The configuration of the test "should handle very short
  durations" has a focus duration of one second, below the documented minimum of 30, and
  the hook still returns a session for it.
\<close>

theorem C2_short_focus_constructs:
  "focusDuration shortSettings < 30
   \<and> useTimer shortSettings =
       Inr \<lparr> phase = phase_focus, state = state_idle, currentLoop = 1, totalLoops = 1,
             timeElapsed = 0, timeRemaining = 1, totalSessionTime = 1,
             coinsEarned = 0, completedFocusTime = 0 \<rparr>"
  by (simp add: useTimer_def initialSession_def shortSettings_def)

text \<open>
  C2, as the source has it.  Calling the hook never fails, whatever the configuration:
  it returns the idle initial session, in the preparation phase with 300 seconds if
  \<open>hasPrep\<close> is set and in the focus phase with \<open>focusDuration\<close> seconds otherwise, in loop 1
  with all counters zero.
\<close>

theorem C2_useTimer_never_fails:
  "useTimer settings \<noteq> Inl e
   \<and> useTimer settings = Inr (initialSession settings)
   \<and> state (initialSession settings) = state_idle
   \<and> phase (initialSession settings) = (if hasPrep settings then phase_prep else phase_focus)
   \<and> timeRemaining (initialSession settings) = (if hasPrep settings then 300 else focusDuration settings)
   \<and> currentLoop (initialSession settings) = 1
   \<and> timeElapsed (initialSession settings) = 0
   \<and> coinsEarned (initialSession settings) = 0
   \<and> completedFocusTime (initialSession settings) = 0"
  by (simp add: useTimer_def initialSession_def PREP_DURATION_def)

subsection \<open>Completed phase and completed run state\<close>

text \<open>
  C3, counterexample.  With focus 150, no break and one loop, \<open>start()\<close> and
  \<open>skipPhase()\<close> complete the session; a further \<open>start()\<close> sets the run state to running
  while the phase stays completed.
\<close>

theorem C3_start_after_completion:
  "phase (fromFresh scenarioESettings [Start, Skip, Start]) = phase_completed
   \<and> state (fromFresh scenarioESettings [Start, Skip, Start]) = state_running"
  by code_simp

text \<open>
  C3, as the source has it.  In every session reached from a fresh hook by any list of
  commands, a completed run state implies a completed phase, and a completed phase
  implies a run state other than idle (completed, or running or paused after a later
  \<open>start()\<close> or \<open>pause()\<close>); right after a phase transition from such a session
  the phase is completed exactly when the run state is.
\<close>

theorem C3_completed_state_implies_phase:
  "(state (fromFresh settings cmds) = state_completed
      \<longrightarrow> phase (fromFresh settings cmds) = phase_completed)
   \<and> (phase (fromFresh settings cmds) = phase_completed
      \<longrightarrow> state (fromFresh settings cmds) \<noteq> state_idle)
   \<and> (phase (moveToNextPhase settings isSkipped (fromFresh settings cmds)) = phase_completed
      \<longleftrightarrow> state (moveToNextPhase settings isSkipped (fromFresh settings cmds))
            = state_completed)"
proof -
  have "phase (moveToNextPhase settings isSkipped (fromFresh settings cmds)) = phase_completed
      \<longleftrightarrow> state (moveToNextPhase settings isSkipped (fromFresh settings cmds))
            = state_completed"
    using completed_inv [of settings cmds]
    by (auto simp: moveToNextPhase_fields nextPhaseLoop_of_completed)
  with completed_inv [of settings cmds] show ?thesis by blast
qed

theorem C3_completed_state_implies_phase_witness:
  "state (fromFresh scenarioESettings [Start, Skip]) = state_completed
   \<and> phase (fromFresh scenarioESettings [Start, Skip]) = phase_completed
   \<and> state (fromFresh scenarioESettings [Start, Skip]) \<noteq> state_idle"
proof -
  have h: "state (fromFresh scenarioESettings [Start, Skip]) = state_completed"
    by code_simp
  with C3_completed_state_implies_phase [of scenarioESettings "[Start, Skip]"]
  show ?thesis by blast
qed

subsection \<open>The loop counter\<close>

text \<open>
  C4.  The test "should handle single loop correctly" runs one loop of focus 60 and
  break 30 to its end and expects \<open>currentLoop\<close> to be 1.  The source increments the
  counter before it compares it with \<open>loops\<close>, so the completed session has
  \<open>currentLoop = 2\<close>, above the loop count 1.
\<close>

theorem C4_single_loop_evaluated:
  "loops singleLoopSettings = 1
   \<and> phase (fromFresh singleLoopSettings (Start # replicate 60 Tick @ replicate 30 Tick))
       = phase_completed
   \<and> currentLoop (fromFresh singleLoopSettings (Start # replicate 60 Tick @ replicate 30 Tick))
       = 2"
  by code_simp

subsection \<open>start and pause\<close>

text \<open>
  C5, counterexample.  The session completed by \<open>start()\<close> and \<open>skipPhase()\<close> (focus
  150, no break, one loop) is changed by \<open>start()\<close>: its run state becomes running.
\<close>

theorem C5_start_changes_completed:
  "state (fromFresh scenarioESettings [Start, Skip]) = state_completed
   \<and> state (startTimer (fromFresh scenarioESettings [Start, Skip])) = state_running
   \<and> startTimer (fromFresh scenarioESettings [Start, Skip])
       \<noteq> fromFresh scenarioESettings [Start, Skip]"
  by code_simp

text \<open>
  C5, as the source has it.  For every session \<open>s\<close>, \<open>startTimer\<close> sets the run state to
  running (also when \<open>s\<close> is completed); if \<open>s\<close> is already running the whole session is
  unchanged; in all cases phase, elapsed and remaining time, loop, coins and completed
  focus time are unchanged.
\<close>

theorem C5_startTimer_frame:
  "state (startTimer s) = state_running
   \<and> (state s = state_running \<longrightarrow> startTimer s = s)
   \<and> phase (startTimer s) = phase s
   \<and> timeElapsed (startTimer s) = timeElapsed s
   \<and> timeRemaining (startTimer s) = timeRemaining s
   \<and> currentLoop (startTimer s) = currentLoop s
   \<and> coinsEarned (startTimer s) = coinsEarned s
   \<and> completedFocusTime (startTimer s) = completedFocusTime s"
  by (auto simp: startTimer_def)

theorem C5_startTimer_frame_witness:
  "state (fromFresh defaultSettings [Start, Tick]) = state_running
   \<and> startTimer (fromFresh defaultSettings [Start, Tick]) = fromFresh defaultSettings [Start, Tick]
   \<and> timeElapsed (startTimer (fromFresh defaultSettings [Start, Tick])) = 1"
proof -
  have h: "state (fromFresh defaultSettings [Start, Tick]) = state_running"
    by code_simp
  have e: "timeElapsed (fromFresh defaultSettings [Start, Tick]) = 1"
    by code_simp
  from h e C5_startTimer_frame [of "fromFresh defaultSettings [Start, Tick]"]
  show ?thesis by simp
qed

text \<open>
  C6, counterexample.  The fresh session is idle, not running, and \<open>pause()\<close> changes it:
  its run state becomes paused.
\<close>

theorem C6_pause_changes_idle:
  "state (initialSession defaultSettings) = state_idle
   \<and> state (pauseTimer (initialSession defaultSettings)) = state_paused
   \<and> pauseTimer (initialSession defaultSettings) \<noteq> initialSession defaultSettings"
  by code_simp

text \<open>
  C6, as the source has it.  For every session \<open>s\<close>, \<open>pauseTimer\<close> sets the run state to
  paused, whatever it was (so a running session becomes paused, and only an already
  paused session is left unchanged as a whole); in all cases phase, elapsed and remaining
  time, loop, coins and completed focus time are unchanged.
\<close>

theorem C6_pauseTimer_frame:
  "state (pauseTimer s) = state_paused
   \<and> (state s = state_running \<longrightarrow> state (pauseTimer s) = state_paused)
   \<and> (pauseTimer s = s \<longleftrightarrow> state s = state_paused)
   \<and> phase (pauseTimer s) = phase s
   \<and> timeElapsed (pauseTimer s) = timeElapsed s
   \<and> timeRemaining (pauseTimer s) = timeRemaining s
   \<and> currentLoop (pauseTimer s) = currentLoop s
   \<and> coinsEarned (pauseTimer s) = coinsEarned s
   \<and> completedFocusTime (pauseTimer s) = completedFocusTime s"
proof -
  have "pauseTimer s = s \<longleftrightarrow> state s = state_paused"
  proof
    assume "pauseTimer s = s"
    then have "state (pauseTimer s) = state s" by simp
    then show "state s = state_paused" by (simp add: pauseTimer_def)
  next
    assume "state s = state_paused"
    then show "pauseTimer s = s" by (simp add: pauseTimer_def)
  qed
  then show ?thesis by (simp add: pauseTimer_def)
qed

theorem C6_pauseTimer_frame_witness:
  "state (fromFresh defaultSettings [Start, Tick]) = state_running
   \<and> state (pauseTimer (fromFresh defaultSettings [Start, Tick])) = state_paused
   \<and> timeElapsed (pauseTimer (fromFresh defaultSettings [Start, Tick])) = 1
   \<and> timeRemaining (pauseTimer (fromFresh defaultSettings [Start, Tick])) = 59"
proof -
  have h: "state (fromFresh defaultSettings [Start, Tick]) = state_running"
    by code_simp
  have e: "timeElapsed (fromFresh defaultSettings [Start, Tick]) = 1"
    by code_simp
  have r: "timeRemaining (fromFresh defaultSettings [Start, Tick]) = 59"
    by code_simp
  from h e r C6_pauseTimer_frame [of "fromFresh defaultSettings [Start, Tick]"]
  show ?thesis by simp
qed

subsection \<open>Elapsed plus remaining time\<close>

text \<open>
  C7.  In every session reached from a fresh hook by any list of commands, each command
  (a tick together with the transition it schedules) taken as one step, elapsed plus
  remaining time equals the duration of the current phase, where the duration of the
  preparation phase is 300, of the focus phase \<open>focusDuration\<close>, of the break phase
  \<open>breakDuration\<close> and of the completed phase 0.
\<close>

theorem C7_elapsed_plus_remaining:
  "timeElapsed (fromFresh settings cmds) + timeRemaining (fromFresh settings cmds)
     = getCurrentPhaseDuration settings (phase (fromFresh settings cmds))
   \<and> getCurrentPhaseDuration settings phase_prep = 300
   \<and> getCurrentPhaseDuration settings phase_focus = focusDuration settings
   \<and> getCurrentPhaseDuration settings phase_break = breakDuration settings
   \<and> getCurrentPhaseDuration settings phase_completed = 0"
proof -
  have "timeElapsed (fromFresh settings cmds) + timeRemaining (fromFresh settings cmds)
          = getCurrentPhaseDuration settings (phase (fromFresh settings cmds))"
  proof (induction cmds rule: rev_induct)
    case Nil
    show ?case by (simp add: fromFresh_Nil initialSession_def)
  next
    case (snoc c cmds)
    then show ?case unfolding fromFresh_snoc by (rule phase_time_step)
  qed
  then show ?thesis by (simp add: PREP_DURATION_def)
qed

theorem C7_elapsed_plus_remaining_witness:
  "timeElapsed (fromFresh defaultSettings (Start # replicate 60 Tick @ [Tick, Tick, Pause])) = 2
   \<and> phase (fromFresh defaultSettings (Start # replicate 60 Tick @ [Tick, Tick, Pause])) = phase_break
   \<and> timeRemaining (fromFresh defaultSettings (Start # replicate 60 Tick @ [Tick, Tick, Pause])) = 28"
proof -
  have e: "timeElapsed (fromFresh defaultSettings (Start # replicate 60 Tick @ [Tick, Tick, Pause])) = 2"
    by code_simp
  have p: "phase (fromFresh defaultSettings (Start # replicate 60 Tick @ [Tick, Tick, Pause])) = phase_break"
    by code_simp
  have b: "breakDuration defaultSettings = 30"
    by code_simp
  from e p b
    C7_elapsed_plus_remaining [of defaultSettings "Start # replicate 60 Tick @ [Tick, Tick, Pause]"]
  show ?thesis by simp
qed

subsection \<open>Coins\<close>

text \<open>
  C8, counterexample.  After \<open>start()\<close> and 60 ticks with focus 60 and break 30 one coin
  has been earned; \<open>reset()\<close> then sets \<open>coinsEarned\<close> back to 0.
\<close>

theorem C8_reset_drops_coins:
  "coinsEarned (fromFresh defaultSettings (Start # replicate 60 Tick)) = 1
   \<and> coinsEarned (applyCommand defaultSettings Reset
        (fromFresh defaultSettings (Start # replicate 60 Tick))) = 0"
  by code_simp

text \<open>
  C8, as the source has it.  In every session reached from a fresh hook, \<open>coinsEarned\<close>
  is not negative, and each single command among start, pause, skipPhase and tick leaves
  it greater than or equal to its value before; reset sets it to 0.
\<close>

theorem C8_coins_monotone_except_reset:
  "0 \<le> coinsEarned (fromFresh settings cmds)
   \<and> (c \<noteq> Reset \<longrightarrow>
        coinsEarned (fromFresh settings cmds)
          \<le> coinsEarned (applyCommand settings c (fromFresh settings cmds)))
   \<and> coinsEarned (applyCommand settings Reset (fromFresh settings cmds)) = 0"
proof -
  have "c \<noteq> Reset \<Longrightarrow>
          coinsEarned (fromFresh settings cmds)
            \<le> coinsEarned (applyCommand settings c (fromFresh settings cmds))"
    using timeElapsed_nonneg by (rule coinsEarned_step)
  moreover have "coinsEarned (applyCommand settings Reset (fromFresh settings cmds)) = 0"
    by (simp add: resetTimer_def initialSession_def)
  ultimately show ?thesis using coinsEarned_nonneg [of settings cmds] by blast
qed

theorem C8_coins_monotone_except_reset_witness:
  "Tick \<noteq> Reset
   \<and> coinsEarned (fromFresh defaultSettings (Start # replicate 59 Tick)) = 0
   \<and> coinsEarned (applyCommand defaultSettings Tick
        (fromFresh defaultSettings (Start # replicate 59 Tick))) = 1
   \<and> coinsEarned (fromFresh defaultSettings (Start # replicate 59 Tick))
        \<le> coinsEarned (applyCommand defaultSettings Tick
             (fromFresh defaultSettings (Start # replicate 59 Tick)))"
proof -
  have h: "Tick \<noteq> Reset" by simp
  have a: "coinsEarned (fromFresh defaultSettings (Start # replicate 59 Tick)) = 0"
    by code_simp
  have b: "coinsEarned (applyCommand defaultSettings Tick
             (fromFresh defaultSettings (Start # replicate 59 Tick))) = 1"
    by code_simp
  from h a b
    C8_coins_monotone_except_reset [of defaultSettings "Start # replicate 59 Tick" Tick]
  show ?thesis by blast
qed

subsection \<open>formatTime\<close>

text \<open>
  C9.  For every non-negative integer \<open>s\<close>, \<open>formatTime s\<close> is the minutes
  \<open>floor(s / 60)\<close>, not wrapped at 60, padded with zeros to at least two digits, a colon,
  and the seconds \<open>s mod 60\<close> padded in the same way; in particular
  \<open>formatTime 3661 = "61:01"\<close> and \<open>formatTime 0 = "00:00"\<close>.
\<close>

theorem C9_formatTime:
  "(0 \<le> s \<longrightarrow> formatTime s = spec_pad2 (s div 60) @ '':'' @ spec_pad2 (s mod 60))
   \<and> formatTime 3661 = ''61:01''
   \<and> formatTime 0 = ''00:00''"
proof -
  have "formatTime s = spec_pad2 (s div 60) @ '':'' @ spec_pad2 (s mod 60)" if "0 \<le> s"
  proof -
    from that have "0 \<le> s div 60" and "0 \<le> s mod 60"
      by (simp_all add: pos_imp_zdiv_nonneg_iff)
    then show ?thesis
      using that
      by (simp add: formatTime_def Let_def jsRemainder_nonneg padStart_numberToString)
  qed
  moreover have "formatTime 3661 = ''61:01''" by code_simp
  moreover have "formatTime 0 = ''00:00''" by code_simp
  ultimately show ?thesis by blast
qed

theorem C9_formatTime_witness:
  "(0::int) \<le> 125
   \<and> formatTime 125 = spec_pad2 (125 div 60) @ '':'' @ spec_pad2 (125 mod 60)
   \<and> spec_pad2 (125 div 60) @ '':'' @ spec_pad2 (125 mod 60) = ''02:05''"
proof -
  have h: "(0::int) \<le> 125" by simp
  have v: "spec_pad2 (125 div 60) @ '':'' @ spec_pad2 (125 mod 60) = ''02:05''"
    by code_simp
  from h v C9_formatTime [of 125] show ?thesis by blast
qed

subsection \<open>skipPhase outside the running state\<close>

text \<open>
  C10.  For every session whose run state is idle or paused and whose phase is not
  completed, \<open>skipPhase\<close> is not a no-op: it is the transition \<open>moveToNextPhase(true)\<close>,
  which changes the session, awards no coins, adds the elapsed time to the completed
  focus time when the phase is focus (and nothing otherwise), moves to the phase given
  by the transition table wherever the table has a row, and sets the elapsed time to 0
  and the remaining time to the duration of the new phase.
\<close>

theorem C10_skipPhase_idle_or_paused:
  assumes "state s = state_idle \<or> state s = state_paused"
    and "phase s \<noteq> phase_completed"
  shows "skipPhase settings s = moveToNextPhase settings True s
    \<and> skipPhase settings s \<noteq> s
    \<and> coinsEarned (skipPhase settings s) = coinsEarned s
    \<and> completedFocusTime (skipPhase settings s)
        = (if phase s = phase_focus then completedFocusTime s + timeElapsed s
           else completedFocusTime s)
    \<and> (\<forall>p. spec_nextPhase settings (phase s) (currentLoop s) = Some p
          \<longrightarrow> phase (skipPhase settings s) = p)
    \<and> (0 \<le> breakDuration settings \<and> currentLoop s \<le> loops settings
          \<longrightarrow> spec_nextPhase settings (phase s) (currentLoop s)
                = Some (phase (skipPhase settings s)))
    \<and> timeElapsed (skipPhase settings s) = 0
    \<and> timeRemaining (skipPhase settings s)
        = getCurrentPhaseDuration settings (phase (skipPhase settings s))
    \<and> state (skipPhase settings s)
        = (if phase (skipPhase settings s) = phase_completed then state_completed
           else state s)"
proof -
  have changed: "skipPhase settings s \<noteq> s"
  proof
    assume eq: "skipPhase settings s = s"
    then have "phase (skipPhase settings s) = phase s"
      and "currentLoop (skipPhase settings s) = currentLoop s"
      by simp_all
    with assms(2) show False
      by (cases "phase s")
         (auto simp: skipPhase_def moveToNextPhase_fields nextPhaseLoop_def Let_def
            split: if_splits)
  qed
  have table: "\<forall>p. spec_nextPhase settings (phase s) (currentLoop s) = Some p
                 \<longrightarrow> phase (skipPhase settings s) = p"
    using assms(2)
    by (cases "phase s")
       (auto simp: skipPhase_def moveToNextPhase_phase nextPhaseLoop_def Let_def
          split: if_splits)
  have row: "0 \<le> breakDuration settings \<and> currentLoop s \<le> loops settings
               \<longrightarrow> spec_nextPhase settings (phase s) (currentLoop s)
                     = Some (phase (skipPhase settings s))"
    using assms(2)
    by (cases "phase s")
       (auto simp: skipPhase_def moveToNextPhase_phase nextPhaseLoop_def Let_def)
  have rest: "coinsEarned (skipPhase settings s) = coinsEarned s"
    "completedFocusTime (skipPhase settings s)
        = (if phase s = phase_focus then completedFocusTime s + timeElapsed s
           else completedFocusTime s)"
    "timeElapsed (skipPhase settings s) = 0"
    "timeRemaining (skipPhase settings s)
        = getCurrentPhaseDuration settings (phase (skipPhase settings s))"
    "state (skipPhase settings s)
        = (if phase (skipPhase settings s) = phase_completed then state_completed
           else state s)"
    by (simp_all add: skipPhase_def moveToNextPhase_fields coinsToAdd_def
          nextCompletedFocusTime_def)
  have "skipPhase settings s = moveToNextPhase settings True s"
    by (simp add: skipPhase_def)
  with changed table row rest show ?thesis by blast
qed

text \<open>Scenario D with a pause before the skip: 30 seconds into the first focus phase.\<close>

theorem C10_skipPhase_idle_or_paused_witness:
  "(state (fromFresh defaultSettings (Start # replicate 30 Tick @ [Pause])) = state_idle
      \<or> state (fromFresh defaultSettings (Start # replicate 30 Tick @ [Pause])) = state_paused)
   \<and> phase (fromFresh defaultSettings (Start # replicate 30 Tick @ [Pause])) \<noteq> phase_completed
   \<and> skipPhase defaultSettings (fromFresh defaultSettings (Start # replicate 30 Tick @ [Pause]))
        \<noteq> fromFresh defaultSettings (Start # replicate 30 Tick @ [Pause])
   \<and> phase (skipPhase defaultSettings
        (fromFresh defaultSettings (Start # replicate 30 Tick @ [Pause]))) = phase_break
   \<and> coinsEarned (skipPhase defaultSettings
        (fromFresh defaultSettings (Start # replicate 30 Tick @ [Pause]))) = 0
   \<and> completedFocusTime (skipPhase defaultSettings
        (fromFresh defaultSettings (Start # replicate 30 Tick @ [Pause]))) = 30
   \<and> timeElapsed (skipPhase defaultSettings
        (fromFresh defaultSettings (Start # replicate 30 Tick @ [Pause]))) = 0"
proof -
  let ?S = "fromFresh defaultSettings (Start # replicate 30 Tick @ [Pause])"
  have h1: "state ?S = state_idle \<or> state ?S = state_paused" by code_simp
  have h2: "phase ?S \<noteq> phase_completed" by code_simp
  have p: "phase ?S = phase_focus" by code_simp
  have l: "spec_nextPhase defaultSettings phase_focus (currentLoop ?S) = Some phase_break"
    by code_simp
  have c: "coinsEarned ?S = 0" by code_simp
  have f: "completedFocusTime ?S = 0" by code_simp
  have e: "timeElapsed ?S = 30" by code_simp
  note skip = C10_skipPhase_idle_or_paused [OF h1 h2, of defaultSettings]
  from skip have changed: "skipPhase defaultSettings ?S \<noteq> ?S"
    by blast
  from skip have "\<forall>q. spec_nextPhase defaultSettings (phase ?S) (currentLoop ?S) = Some q
      \<longrightarrow> phase (skipPhase defaultSettings ?S) = q"
    by blast
  with p l have ph: "phase (skipPhase defaultSettings ?S) = phase_break"
    by simp
  from skip have "coinsEarned (skipPhase defaultSettings ?S) = coinsEarned ?S"
    by blast
  with c have co: "coinsEarned (skipPhase defaultSettings ?S) = 0"
    by simp
  from skip have "completedFocusTime (skipPhase defaultSettings ?S)
        = (if phase ?S = phase_focus then completedFocusTime ?S + timeElapsed ?S
           else completedFocusTime ?S)"
    by blast
  with p f e have cf: "completedFocusTime (skipPhase defaultSettings ?S) = 30"
    by simp
  from skip have el: "timeElapsed (skipPhase defaultSettings ?S) = 0"
    by blast
  from h1 h2 changed ph co cf el show ?thesis by blast
qed

end
